theory Spec2Isabelle
  imports Main "HOL-Library.Sublist" "HOL-Library.Multiset"
begin

section \<open>Values decoded from JSON, and the Python operations the streamer applies to them\<close>

text \<open>
  \<open>streamer.py\<close> works on whatever \<open>json.loads\<close> and \<open>resp.json()\<close> return: \<open>None\<close>,
  booleans, integers, floats, strings, lists and dicts. Floats are kept abstract (the type
  variable \<open>'f\<close>): no property below depends on floating-point arithmetic. A dict is an
  association list read with \<open>map_of\<close>.
\<close>

datatype 'f json =
    JNull
  | JBool bool
  | JInt int
  | JFloat 'f
  | JStr string
  | JArr "'f json list"
  | JObj "(string \<times> 'f json) list"

datatype py_error =
    ValueError
  | TypeError
  | KeyError
  | IndexError
  | AttributeError
  | RequestError
  | CallbackError

text \<open>Sequencing of computations that may raise: the first exception ends the computation.\<close>

definition ebind :: "py_error + 'a \<Rightarrow> ('a \<Rightarrow> py_error + 'b) \<Rightarrow> py_error + 'b" where
  "ebind m f = (case m of Inl e \<Rightarrow> Inl e | Inr x \<Rightarrow> f x)"

text \<open>\<open>needle in container\<close> for a string needle: key test on a dict, element test on a list,
  substring test on a string, \<open>TypeError\<close> on anything else.\<close>

fun py_in :: "string \<Rightarrow> 'f json \<Rightarrow> py_error + bool" where
  "py_in k (JObj kvs) = Inr (k \<in> set (map fst kvs))"
| "py_in k (JArr xs) = Inr (JStr k \<in> set xs)"
| "py_in k (JStr t) = Inr (sublist k t)"
| "py_in k _ = Inl TypeError"

text \<open>\<open>obj[key]\<close> with a string key: only a dict accepts it.\<close>

fun py_getitem :: "'f json \<Rightarrow> string \<Rightarrow> py_error + 'f json" where
  "py_getitem (JObj kvs) k = (case map_of kvs k of Some v \<Rightarrow> Inr v | None \<Rightarrow> Inl KeyError)"
| "py_getitem _ k = Inl TypeError"

text \<open>\<open>obj[i]\<close> with a non-negative integer literal \<open>i\<close>: an element of a list, a one-character
  string of a string, \<open>KeyError\<close> on a dict (its keys are strings), \<open>TypeError\<close> otherwise.\<close>

fun py_index :: "'f json \<Rightarrow> nat \<Rightarrow> py_error + 'f json" where
  "py_index (JArr xs) i = (if i < length xs then Inr (xs ! i) else Inl IndexError)"
| "py_index (JStr t) i = (if i < length t then Inr (JStr [t ! i]) else Inl IndexError)"
| "py_index (JObj kvs) i = Inl KeyError"
| "py_index _ i = Inl TypeError"

text \<open>\<open>obj.get(key, default)\<close>: a dict method; any other value has no attribute \<open>get\<close>.\<close>

fun py_get :: "'f json \<Rightarrow> string \<Rightarrow> 'f json \<Rightarrow> py_error + 'f json" where
  "py_get (JObj kvs) k d = (case map_of kvs k of Some v \<Rightarrow> Inr v | None \<Rightarrow> Inr d)"
| "py_get _ k d = Inl AttributeError"

text \<open>\<open>for x in obj\<close>: the elements of a list, the characters of a string, the keys of a
  dict; other values are not iterable.\<close>

fun py_iter :: "'f json \<Rightarrow> py_error + 'f json list" where
  "py_iter (JArr xs) = Inr xs"
| "py_iter (JStr t) = Inr (map (\<lambda>c. JStr [c]) t)"
| "py_iter (JObj kvs) = Inr (map JStr (remdups (map fst kvs)))"
| "py_iter _ = Inl TypeError"

text \<open>
  The library functions the streamer calls on decoded values are parameters of the model:
  \<open>int(x)\<close>, \<open>float(x)\<close>, \<open>pd.to_datetime(n, unit='ms')\<close> and \<open>json.loads(text)\<close>, each of
  which either returns or raises. A pandas timestamp is represented by an integer (its
  epoch milliseconds), which is all that ordering by timestamp needs.
\<close>

record 'f pylib =
  py_int :: "'f json \<Rightarrow> py_error + int"
  py_float :: "'f json \<Rightarrow> py_error + 'f"
  to_datetime :: "int \<Rightarrow> py_error + int"
  json_loads :: "string \<Rightarrow> py_error + 'f json"

section \<open>Candles\<close>

text \<open>
  A candle is the dict the source builds. The historical fetchers build it with six keys;
  the live handlers add a seventh, \<open>'confirmed'\<close>, whose value is whatever the message
  carries (Bybit, Binance) or the constant \<open>True\<close> (OKX). \<open>confirmed = None\<close> is the dict
  without that key.
\<close>

record 'f candle =
  timestamp :: int
  open_price :: 'f
  high :: 'f
  low :: 'f
  close_price :: 'f
  volume :: 'f
  confirmed :: "'f json option"

section \<open>The exchange table\<close>

record exchange_cfg =
  ws_url :: string
  rest :: string
  intervals :: "(string \<times> string) list"

definition bybit_cfg :: exchange_cfg where
  "bybit_cfg = \<lparr> ws_url = ''wss://stream.bybit.com/v5/public/linear'',
     rest = ''https://api.bybit.com/v5/market/kline'',
     intervals = [(''1s'', ''1''), (''1m'', ''1''), (''5m'', ''5''), (''15m'', ''15''),
                  (''1h'', ''60''), (''4h'', ''240''), (''1D'', ''D'')] \<rparr>"

definition binance_cfg :: exchange_cfg where
  "binance_cfg = \<lparr> ws_url = ''wss://fstream.binance.com/ws'',
     rest = ''https://fapi.binance.com/fapi/v1/klines'',
     intervals = [(''1s'', ''1s''), (''1m'', ''1m''), (''5m'', ''5m''), (''15m'', ''15m''),
                  (''1h'', ''1h''), (''4h'', ''4h''), (''1D'', ''1d'')] \<rparr>"

definition okx_cfg :: exchange_cfg where
  "okx_cfg = \<lparr> ws_url = ''wss://ws.okx.com:8443/ws/v5/public'',
     rest = ''https://www.okx.com/api/v5/market/candles'',
     intervals = [(''1m'', ''1m''), (''5m'', ''5m''), (''15m'', ''15m''),
                  (''1h'', ''1H''), (''4h'', ''4H''), (''1D'', ''1D'')] \<rparr>"

definition EXCHANGES :: "(string \<times> exchange_cfg) list" where
  "EXCHANGES = [(''bybit'', bybit_cfg), (''binance'', binance_cfg), (''okx'', okx_cfg)]"

text \<open>\<open>d.get(key, default)\<close> on a dict of the program's own.\<close>

definition dict_get :: "('k \<times> 'v) list \<Rightarrow> 'k \<Rightarrow> 'v \<Rightarrow> 'v" where
  "dict_get d k dflt = (case map_of d k of Some v \<Rightarrow> v | None \<Rightarrow> dflt)"

text \<open>The interval lookups, as written at the head of each fetcher and each socket starter.\<close>

definition bybit_interval :: "string \<Rightarrow> string" where
  "bybit_interval tf = dict_get (intervals bybit_cfg) tf ''1''"

definition binance_interval :: "string \<Rightarrow> string" where
  "binance_interval tf = dict_get (intervals binance_cfg) tf ''1m''"

definition okx_interval :: "string \<Rightarrow> string" where
  "okx_interval tf = dict_get (intervals okx_cfg) tf ''1m''"

definition documented_timeframes :: "string set" where
  "documented_timeframes = {''1m'', ''5m'', ''15m'', ''1h'', ''4h'', ''1D''}"

section \<open>The streamer object\<close>

text \<open>
  The fields of \<open>MultiExchangeStreamer\<close>, followed by the effects of the session on its
  collaborators, each kept as a log in order of occurrence: the candles handed to the
  observer, the snapshots handed to the file writer (path and rows of every \<open>to_csv\<close>
  call), and what was asked of the socket library. \<open>ws\<close> holds the URL the current
  \<open>WebSocketApp\<close> was built with. The observer is a function that either returns
  (\<open>None\<close>) or raises; the file writer and the socket library are taken to return
  normally. Console output is not modelled.
\<close>

datatype 'f wire_action =
    Connect string
  | Send "'f json"
  | Sleep nat
  | CloseConn

record 'f streamer =
  symbol :: string
  timeframe :: string
  exchange :: string
  output_dir :: string
  candles :: "'f candle list"
  ws :: "string option"
  running :: bool
  on_candle_callback :: "('f candle \<Rightarrow> py_error option) option"
  observed :: "'f candle list"
  written :: "(string \<times> 'f candle list) list"
  wire :: "'f wire_action list"

definition init :: "string \<Rightarrow> string \<Rightarrow> string \<Rightarrow> string \<Rightarrow> 'f streamer" where
  "init smb tf ex out = \<lparr> symbol = smb, timeframe = tf, exchange = ex, output_dir = out,
     candles = [], ws = None, running = False, on_candle_callback = None,
     observed = [], written = [], wire = [] \<rparr>"

definition csv_filename :: "'f streamer \<Rightarrow> string \<Rightarrow> string" where
  "csv_filename s label =
     output_dir s @ ''/'' @ symbol s @ ''_'' @ timeframe s @ ''_'' @ label @ ''.csv''"

definition save_csv :: "string \<Rightarrow> 'f streamer \<Rightarrow> 'f streamer" where
  "save_csv label s =
     (if candles s = [] then s
      else s\<lparr>written := written s @ [(csv_filename s label, candles s)]\<rparr>)"

text \<open>The file writer overwrites: the snapshot stored at a path is the last one written there.\<close>

definition snapshot_at :: "'f streamer \<Rightarrow> string \<Rightarrow> 'f candle list option" where
  "snapshot_at s path = map_of (rev (written s)) path"

datatype outcome = Returned | Raised py_error

text \<open>\<open>xs[-n:]\<close> for a positive literal \<open>n\<close>.\<close>

definition last_n :: "nat \<Rightarrow> 'a list \<Rightarrow> 'a list" where
  "last_n n xs = drop (length xs - n) xs"

definition append_capped :: "'f candle \<Rightarrow> 'f streamer \<Rightarrow> 'f streamer" where
  "append_capped c s =
     (let s1 = s\<lparr>candles := candles s @ [c]\<rparr>
      in if length (candles s1) > 10000 then s1\<lparr>candles := last_n 10000 (candles s1)\<rparr> else s1)"

definition autosave :: "'f streamer \<Rightarrow> 'f streamer" where
  "autosave s = (if length (candles s) mod 100 = 0 then save_csv ''live'' s else s)"

text \<open>\<open>_process_candle\<close>: append and cap, call the observer if there is one, save every
  hundredth length. An exception of the observer leaves the method at that point, with the
  candle already appended.\<close>

definition process_candle :: "'f candle \<Rightarrow> 'f streamer \<Rightarrow> outcome \<times> 'f streamer" where
  "process_candle c s =
     (let s2 = append_capped c s
      in case on_candle_callback s2 of
           None \<Rightarrow> (Returned, autosave s2)
         | Some f \<Rightarrow>
             (let s3 = s2\<lparr>observed := observed s2 @ [c]\<rparr>
              in case f c of
                   Some e \<Rightarrow> (Raised e, s3)
                 | None \<Rightarrow> (Returned, autosave s3)))"

text \<open>Live candles processed one after the other; the socket handlers swallow an exception
  of one candle and go on with the next message.\<close>

definition process_all :: "'f candle list \<Rightarrow> 'f streamer \<Rightarrow> 'f streamer" where
  "process_all cs s = foldl (\<lambda>s c. snd (process_candle c s)) s cs"

definition stop :: "'f streamer \<Rightarrow> 'f streamer" where
  "stop s =
     (let s1 = s\<lparr>running := False\<rparr>;
          s2 = (case ws s1 of None \<Rightarrow> s1 | Some u \<Rightarrow> s1\<lparr>wire := wire s1 @ [CloseConn]\<rparr>)
      in save_csv ''final'' s2)"

section \<open>Historical fetch\<close>

text \<open>
  The HTTP collaborator stands for \<open>requests.get(url, params=..., timeout=10)\<close> followed by
  \<open>raise_for_status()\<close> and \<open>json()\<close>: given the URL and the query parameters it returns the
  decoded body or raises.
\<close>

type_synonym 'f http = "string \<Rightarrow> (string \<times> 'f json) list \<Rightarrow> py_error + 'f json"

definition field_time :: "'f pylib \<Rightarrow> py_error + 'f json \<Rightarrow> py_error + int" where
  "field_time lib v = ebind v (\<lambda>x. ebind (py_int lib x) (to_datetime lib))"

definition field_float :: "'f pylib \<Rightarrow> py_error + 'f json \<Rightarrow> py_error + 'f" where
  "field_float lib v = ebind v (py_float lib)"

text \<open>The dict built for each kline by each of the three fetchers (the same text in all
  three): six keys, read from positions 0 to 5 of the kline in this order.\<close>

definition historical_candle :: "'f pylib \<Rightarrow> 'f json \<Rightarrow> py_error + 'f candle" where
  "historical_candle lib kline =
     ebind (field_time lib (py_index kline 0)) (\<lambda>t.
     ebind (field_float lib (py_index kline 1)) (\<lambda>opn.
     ebind (field_float lib (py_index kline 2)) (\<lambda>h.
     ebind (field_float lib (py_index kline 3)) (\<lambda>l.
     ebind (field_float lib (py_index kline 4)) (\<lambda>c.
     ebind (field_float lib (py_index kline 5)) (\<lambda>v.
     Inr \<lparr> timestamp = t, open_price = opn, high = h, low = l, close_price = c,
           volume = v, confirmed = None \<rparr>))))))"

text \<open>\<open>for x in xs: out.append(f(x))\<close>, left at the first exception.\<close>

fun collect :: "('a \<Rightarrow> py_error + 'b) \<Rightarrow> 'a list \<Rightarrow> py_error + 'b list" where
  "collect f [] = Inr []"
| "collect f (x # xs) = ebind (f x) (\<lambda>y. ebind (collect f xs) (\<lambda>ys. Inr (y # ys)))"

definition bybit_params :: "'f streamer \<Rightarrow> int \<Rightarrow> (string \<times> 'f json) list" where
  "bybit_params s limit =
     [(''category'', JStr ''linear''), (''symbol'', JStr (symbol s)),
      (''interval'', JStr (bybit_interval (timeframe s))), (''limit'', JInt (min limit 1000))]"

text \<open>Each fetcher, up to its loop: the request, the check of the envelope, and the rows the
  loop is going to run over.\<close>

definition bybit_klines :: "'f http \<Rightarrow> int \<Rightarrow> 'f streamer \<Rightarrow> py_error + 'f json list" where
  "bybit_klines http limit s =
     ebind (http (rest bybit_cfg) (bybit_params s limit)) (\<lambda>data.
     ebind (py_in ''result'' data) (\<lambda>has_result.
       if \<not> has_result then Inl ValueError
       else ebind (py_getitem data ''result'') (\<lambda>result.
            ebind (py_in ''list'' result) (\<lambda>has_list.
              if \<not> has_list then Inl ValueError
              else ebind (py_getitem result ''list'') py_iter))))"

definition fetch_bybit_historical ::
  "'f pylib \<Rightarrow> 'f http \<Rightarrow> int \<Rightarrow> 'f streamer \<Rightarrow> py_error + 'f candle list" where
  "fetch_bybit_historical lib http limit s =
     ebind (bybit_klines http limit s) (\<lambda>klines.
     ebind (collect (historical_candle lib) klines) (\<lambda>cs.
     Inr (sort_key timestamp cs)))"

definition binance_params :: "'f streamer \<Rightarrow> int \<Rightarrow> (string \<times> 'f json) list" where
  "binance_params s limit =
     [(''symbol'', JStr (symbol s)), (''interval'', JStr (binance_interval (timeframe s))),
      (''limit'', JInt (min limit 1500))]"

definition binance_klines :: "'f http \<Rightarrow> int \<Rightarrow> 'f streamer \<Rightarrow> py_error + 'f json list" where
  "binance_klines http limit s =
     ebind (http (rest binance_cfg) (binance_params s limit)) py_iter"

definition fetch_binance_historical ::
  "'f pylib \<Rightarrow> 'f http \<Rightarrow> int \<Rightarrow> 'f streamer \<Rightarrow> py_error + 'f candle list" where
  "fetch_binance_historical lib http limit s =
     ebind (binance_klines http limit s) (\<lambda>klines.
     ebind (collect (historical_candle lib) klines) (\<lambda>cs.
     Inr cs))"

definition okx_inst_id :: "'f streamer \<Rightarrow> string" where
  "okx_inst_id s = take 3 (symbol s) @ ''-'' @ drop 3 (symbol s) @ ''-SWAP''"

definition okx_params :: "'f streamer \<Rightarrow> int \<Rightarrow> (string \<times> 'f json) list" where
  "okx_params s limit =
     [(''instId'', JStr (okx_inst_id s)), (''bar'', JStr (okx_interval (timeframe s))),
      (''limit'', JInt (min limit 300))]"

definition okx_klines :: "'f http \<Rightarrow> int \<Rightarrow> 'f streamer \<Rightarrow> py_error + 'f json list" where
  "okx_klines http limit s =
     ebind (http (rest okx_cfg) (okx_params s limit)) (\<lambda>data.
     ebind (py_in ''data'' data) (\<lambda>has_data.
       if \<not> has_data then Inl ValueError
       else ebind (py_getitem data ''data'') py_iter))"

definition fetch_okx_historical ::
  "'f pylib \<Rightarrow> 'f http \<Rightarrow> int \<Rightarrow> 'f streamer \<Rightarrow> py_error + 'f candle list" where
  "fetch_okx_historical lib http limit s =
     ebind (okx_klines http limit s) (\<lambda>klines.
     ebind (collect (historical_candle lib) klines) (\<lambda>cs.
     Inr (sort_key timestamp cs)))"

text \<open>\<open>fetch_historical\<close> returns the list and leaves the session updated; any exception of
  the fetcher (an unknown exchange is one) is caught and gives the empty list, the session
  unchanged.\<close>

definition fetch_historical ::
  "'f pylib \<Rightarrow> 'f http \<Rightarrow> int \<Rightarrow> 'f streamer \<Rightarrow> 'f candle list \<times> 'f streamer" where
  "fetch_historical lib http limit s =
     (case (if exchange s = ''bybit'' then fetch_bybit_historical lib http limit s
            else if exchange s = ''binance'' then fetch_binance_historical lib http limit s
            else if exchange s = ''okx'' then fetch_okx_historical lib http limit s
            else Inl ValueError) of
        Inl e \<Rightarrow> ([], s)
      | Inr data \<Rightarrow> (data, save_csv ''historical'' (s\<lparr>candles := data\<rparr>)))"

text \<open>The rows of the response to the request \<open>fetch_historical\<close> makes, by exchange.\<close>

definition requested_klines :: "'f http \<Rightarrow> int \<Rightarrow> 'f streamer \<Rightarrow> py_error + 'f json list" where
  "requested_klines http limit s =
     (if exchange s = ''bybit'' then bybit_klines http limit s
      else if exchange s = ''binance'' then binance_klines http limit s
      else if exchange s = ''okx'' then okx_klines http limit s
      else Inl ValueError)"

section \<open>Live feed\<close>

definition bybit_live_candle :: "'f pylib \<Rightarrow> 'f json \<Rightarrow> py_error + 'f candle" where
  "bybit_live_candle lib candle_data =
     ebind (field_time lib (py_getitem candle_data ''start'')) (\<lambda>t.
     ebind (field_float lib (py_getitem candle_data ''open'')) (\<lambda>opn.
     ebind (field_float lib (py_getitem candle_data ''high'')) (\<lambda>h.
     ebind (field_float lib (py_getitem candle_data ''low'')) (\<lambda>l.
     ebind (field_float lib (py_getitem candle_data ''close'')) (\<lambda>c.
     ebind (field_float lib (py_getitem candle_data ''volume'')) (\<lambda>v.
     ebind (py_get candle_data ''confirm'' (JBool False)) (\<lambda>x.
     Inr \<lparr> timestamp = t, open_price = opn, high = h, low = l, close_price = c,
           volume = v, confirmed = Some x \<rparr>)))))))"

text \<open>What the \<open>try\<close> block of Bybit's \<open>on_message\<close> gets to: an exception, nothing to do, or
  a candle to process. \<open>interval\<close> is the variable of the enclosing \<open>_start_bybit_ws\<close>.\<close>

definition bybit_accept :: "'f pylib \<Rightarrow> string \<Rightarrow> string \<Rightarrow> py_error + 'f candle option" where
  "bybit_accept lib interval message =
     ebind (json_loads lib message) (\<lambda>data.
     ebind (py_in ''data'' data) (\<lambda>has_data.
     ebind (if has_data
            then ebind (py_get data ''topic'' (JStr [])) (py_in (''kline.'' @ interval))
            else Inr False) (\<lambda>wanted.
       if wanted
       then ebind (py_getitem data ''data'') (\<lambda>d.
            ebind (py_index d 0) (\<lambda>candle_data.
            ebind (bybit_live_candle lib candle_data) (\<lambda>c. Inr (Some c))))
       else Inr None)))"

definition bybit_on_message :: "'f pylib \<Rightarrow> string \<Rightarrow> string \<Rightarrow> 'f streamer \<Rightarrow> 'f streamer" where
  "bybit_on_message lib interval message s =
     (case bybit_accept lib interval message of
        Inl e \<Rightarrow> s
      | Inr None \<Rightarrow> s
      | Inr (Some c) \<Rightarrow> snd (process_candle c s))"

definition bybit_subscribe :: "string \<Rightarrow> 'f streamer \<Rightarrow> 'f json" where
  "bybit_subscribe interval s =
     JObj [(''op'', JStr ''subscribe''),
           (''args'', JArr [JStr (''kline.'' @ interval @ ''.'' @ symbol s)])]"

definition bybit_on_open :: "string \<Rightarrow> 'f streamer \<Rightarrow> 'f streamer" where
  "bybit_on_open interval s = s\<lparr>wire := wire s @ [Send (bybit_subscribe interval s)]\<rparr>"

definition binance_live_candle :: "'f pylib \<Rightarrow> 'f json \<Rightarrow> py_error + 'f candle" where
  "binance_live_candle lib kline =
     ebind (field_time lib (py_getitem kline ''t'')) (\<lambda>t.
     ebind (field_float lib (py_getitem kline ''o'')) (\<lambda>opn.
     ebind (field_float lib (py_getitem kline ''h'')) (\<lambda>h.
     ebind (field_float lib (py_getitem kline ''l'')) (\<lambda>l.
     ebind (field_float lib (py_getitem kline ''c'')) (\<lambda>c.
     ebind (field_float lib (py_getitem kline ''v'')) (\<lambda>v.
     ebind (py_getitem kline ''x'') (\<lambda>x.
     Inr \<lparr> timestamp = t, open_price = opn, high = h, low = l, close_price = c,
           volume = v, confirmed = Some x \<rparr>)))))))"

definition binance_accept :: "'f pylib \<Rightarrow> string \<Rightarrow> py_error + 'f candle option" where
  "binance_accept lib message =
     ebind (json_loads lib message) (\<lambda>data.
     ebind (py_in ''k'' data) (\<lambda>has_k.
       if has_k
       then ebind (py_getitem data ''k'') (\<lambda>kline.
            ebind (binance_live_candle lib kline) (\<lambda>c. Inr (Some c)))
       else Inr None))"

definition binance_on_message :: "'f pylib \<Rightarrow> string \<Rightarrow> 'f streamer \<Rightarrow> 'f streamer" where
  "binance_on_message lib message s =
     (case binance_accept lib message of
        Inl e \<Rightarrow> s
      | Inr None \<Rightarrow> s
      | Inr (Some c) \<Rightarrow> snd (process_candle c s))"

definition okx_live_candle :: "'f pylib \<Rightarrow> 'f json \<Rightarrow> py_error + 'f candle" where
  "okx_live_candle lib kline =
     ebind (field_time lib (py_index kline 0)) (\<lambda>t.
     ebind (field_float lib (py_index kline 1)) (\<lambda>opn.
     ebind (field_float lib (py_index kline 2)) (\<lambda>h.
     ebind (field_float lib (py_index kline 3)) (\<lambda>l.
     ebind (field_float lib (py_index kline 4)) (\<lambda>c.
     ebind (field_float lib (py_index kline 5)) (\<lambda>v.
     Inr \<lparr> timestamp = t, open_price = opn, high = h, low = l, close_price = c,
           volume = v, confirmed = Some (JBool True) \<rparr>))))))"

text \<open>The loop of OKX's \<open>on_message\<close>: each kline is built and processed in turn; the first
  exception, of the construction or of the processing, ends the loop.\<close>

fun okx_loop :: "'f pylib \<Rightarrow> 'f json list \<Rightarrow> 'f streamer \<Rightarrow> 'f streamer" where
  "okx_loop lib [] s = s"
| "okx_loop lib (kline # klines) s =
     (case okx_live_candle lib kline of
        Inl e \<Rightarrow> s
      | Inr c \<Rightarrow>
          (case process_candle c s of
             (Raised e, s') \<Rightarrow> s'
           | (Returned, s') \<Rightarrow> okx_loop lib klines s'))"

definition okx_accept :: "'f pylib \<Rightarrow> string \<Rightarrow> py_error + 'f json list option" where
  "okx_accept lib message =
     ebind (json_loads lib message) (\<lambda>data.
     ebind (py_in ''data'' data) (\<lambda>has_data.
       if has_data
       then ebind (py_getitem data ''data'') (\<lambda>rows.
            ebind (py_iter rows) (\<lambda>klines. Inr (Some klines)))
       else Inr None))"

definition okx_on_message :: "'f pylib \<Rightarrow> string \<Rightarrow> 'f streamer \<Rightarrow> 'f streamer" where
  "okx_on_message lib message s =
     (case okx_accept lib message of
        Inl e \<Rightarrow> s
      | Inr None \<Rightarrow> s
      | Inr (Some klines) \<Rightarrow> okx_loop lib klines s)"

definition okx_subscribe :: "string \<Rightarrow> 'f streamer \<Rightarrow> 'f json" where
  "okx_subscribe interval s =
     JObj [(''op'', JStr ''subscribe''),
           (''args'', JArr [JObj [(''channel'', JStr (''candle'' @ interval)),
                                  (''instId'', JStr (okx_inst_id s))]])]"

definition okx_on_open :: "string \<Rightarrow> 'f streamer \<Rightarrow> 'f streamer" where
  "okx_on_open interval s = s\<lparr>wire := wire s @ [Send (okx_subscribe interval s)]\<rparr>"

text \<open>
  \<open>run_forever\<close> blocks and calls the registered handlers as the transport reports events.
  The model runs it over a script of events: the connection opening, a text message, a
  transport error, the connection closing, and \<open>stop()\<close> being called by the owner of the
  session while the loop is blocked. A script that ends leaves the loop blocked on its
  connection. \<open>run_forever\<close> returns when the connection has closed and its \<open>on_close\<close>
  handler, if one is registered, has returned.
\<close>

datatype event = Opened | Message string | Errored | Closed | StopCalled

text \<open>\<open>self.ws = websocket.WebSocketApp(url, ...)\<close> and the connection \<open>run_forever\<close> makes.\<close>

definition open_socket :: "string \<Rightarrow> 'f streamer \<Rightarrow> 'f streamer" where
  "open_socket url s = s\<lparr>ws := Some url, wire := wire s @ [Connect url]\<rparr>"

definition sleep :: "nat \<Rightarrow> 'f streamer \<Rightarrow> 'f streamer" where
  "sleep n s = s\<lparr>wire := wire s @ [Sleep n]\<rparr>"

text \<open>Bybit registers all four handlers. Its \<open>on_close\<close> calls \<open>_start_bybit_ws\<close> again when
  the session is running: the interval is looked up anew, a new socket is opened, and the
  rest of the script goes to the new loop.\<close>

fun bybit_run_forever :: "'f pylib \<Rightarrow> string \<Rightarrow> event list \<Rightarrow> 'f streamer \<Rightarrow> 'f streamer" where
  "bybit_run_forever lib interval [] s = s"
| "bybit_run_forever lib interval (Opened # es) s =
     bybit_run_forever lib interval es (bybit_on_open interval s)"
| "bybit_run_forever lib interval (Message m # es) s =
     bybit_run_forever lib interval es (bybit_on_message lib interval m s)"
| "bybit_run_forever lib interval (Errored # es) s = bybit_run_forever lib interval es s"
| "bybit_run_forever lib interval (StopCalled # es) s = bybit_run_forever lib interval es (stop s)"
| "bybit_run_forever lib interval (Closed # es) s =
     (if running s
      then bybit_run_forever lib (bybit_interval (timeframe s)) es
             (open_socket (ws_url bybit_cfg) (sleep 5 s))
      else s)"

definition start_bybit_ws :: "'f pylib \<Rightarrow> event list \<Rightarrow> 'f streamer \<Rightarrow> 'f streamer" where
  "start_bybit_ws lib es s =
     bybit_run_forever lib (bybit_interval (timeframe s)) es (open_socket (ws_url bybit_cfg) s)"

text \<open>\<open>str.lower()\<close> on ASCII letters, which is what exchange symbols are made of.\<close>

definition lower_char :: "char \<Rightarrow> char" where
  "lower_char c =
     dict_get (zip ''ABCDEFGHIJKLMNOPQRSTUVWXYZ'' ''abcdefghijklmnopqrstuvwxyz'') c c"

definition str_lower :: "string \<Rightarrow> string" where
  "str_lower t = map lower_char t"

definition binance_ws_url :: "'f streamer \<Rightarrow> string" where
  "binance_ws_url s =
     ws_url binance_cfg @ ''/'' @ str_lower (symbol s) @ ''@kline_'' @
     binance_interval (timeframe s)"

text \<open>Binance and OKX register \<open>on_open\<close> and \<open>on_message\<close> only: an error or a close calls
  nothing of the streamer, and on a close \<open>run_forever\<close> returns.\<close>

fun binance_run_forever :: "'f pylib \<Rightarrow> event list \<Rightarrow> 'f streamer \<Rightarrow> 'f streamer" where
  "binance_run_forever lib [] s = s"
| "binance_run_forever lib (Opened # es) s = binance_run_forever lib es s"
| "binance_run_forever lib (Message m # es) s =
     binance_run_forever lib es (binance_on_message lib m s)"
| "binance_run_forever lib (Errored # es) s = binance_run_forever lib es s"
| "binance_run_forever lib (StopCalled # es) s = binance_run_forever lib es (stop s)"
| "binance_run_forever lib (Closed # es) s = s"

definition start_binance_ws :: "'f pylib \<Rightarrow> event list \<Rightarrow> 'f streamer \<Rightarrow> 'f streamer" where
  "start_binance_ws lib es s = binance_run_forever lib es (open_socket (binance_ws_url s) s)"

fun okx_run_forever :: "'f pylib \<Rightarrow> string \<Rightarrow> event list \<Rightarrow> 'f streamer \<Rightarrow> 'f streamer" where
  "okx_run_forever lib interval [] s = s"
| "okx_run_forever lib interval (Opened # es) s =
     okx_run_forever lib interval es (okx_on_open interval s)"
| "okx_run_forever lib interval (Message m # es) s =
     okx_run_forever lib interval es (okx_on_message lib m s)"
| "okx_run_forever lib interval (Errored # es) s = okx_run_forever lib interval es s"
| "okx_run_forever lib interval (StopCalled # es) s = okx_run_forever lib interval es (stop s)"
| "okx_run_forever lib interval (Closed # es) s = s"

definition start_okx_ws :: "'f pylib \<Rightarrow> event list \<Rightarrow> 'f streamer \<Rightarrow> 'f streamer" where
  "start_okx_ws lib es s =
     okx_run_forever lib (okx_interval (timeframe s)) es (open_socket (ws_url okx_cfg) s)"

definition start_live ::
  "'f pylib \<Rightarrow> ('f candle \<Rightarrow> py_error option) option \<Rightarrow> event list \<Rightarrow> 'f streamer \<Rightarrow> 'f streamer"
  where
  "start_live lib on_candle es s =
     (let s1 = s\<lparr>running := True, on_candle_callback := on_candle\<rparr>
      in if exchange s1 = ''bybit'' then start_bybit_ws lib es s1
         else if exchange s1 = ''binance'' then start_binance_ws lib es s1
         else if exchange s1 = ''okx'' then start_okx_ws lib es s1
         else s1)"

section \<open>Stand-ins for worked examples\<close>

text \<open>
  The library functions on integral JSON numbers, where \<open>int(n)\<close> is \<open>n\<close> and \<open>float(n)\<close>
  is the float of the same value (written as that integer), every timestamp is in range,
  and the decoder is given by a table of message texts. On any other argument these
  stand-ins raise; the examples apply them to integers only.
\<close>

definition int_lib :: "(string \<times> int json) list \<Rightarrow> int pylib" where
  "int_lib table =
     \<lparr> py_int = (\<lambda>j. case j of JInt n \<Rightarrow> Inr n | _ \<Rightarrow> Inl TypeError),
       py_float = (\<lambda>j. case j of JInt n \<Rightarrow> Inr n | _ \<Rightarrow> Inl TypeError),
       to_datetime = (\<lambda>n. Inr n),
       json_loads = (\<lambda>m. case map_of table m of Some j \<Rightarrow> Inr j | None \<Rightarrow> Inl ValueError) \<rparr>"

text \<open>An HTTP collaborator that answers every request with the same decoded body, and an
  observer that always returns.\<close>

definition fixed_http :: "'f json \<Rightarrow> 'f http" where
  "fixed_http body url params = Inr body"

text \<open>An HTTP collaborator that answers one request only, and fails on any other.\<close>

definition only_http :: "string \<Rightarrow> (string \<times> 'f json) list \<Rightarrow> 'f json \<Rightarrow> 'f http" where
  "only_http url params body u p =
     (if u = url \<and> p = params then Inr body else Inl RequestError)"

definition quiet_observer :: "'f candle \<Rightarrow> py_error option" where
  "quiet_observer c = None"

definition failing_observer :: "'f candle \<Rightarrow> py_error option" where
  "failing_observer c = Some CallbackError"

text \<open>A kline whose six leading fields all hold the integer \<open>n\<close>, and the candle read from it.\<close>

definition flat_kline :: "int \<Rightarrow> int json" where
  "flat_kline n = JArr [JInt n, JInt n, JInt n, JInt n, JInt n, JInt n]"

definition flat_candle :: "int \<Rightarrow> int json option \<Rightarrow> int candle" where
  "flat_candle n x = \<lparr> timestamp = n, open_price = n, high = n, low = n, close_price = n,
     volume = n, confirmed = x \<rparr>"

text \<open>The session \<open>main()\<close> builds from its defaults (symbol BTCUSDT, timeframe 1m, output
  directory data) for a given exchange; the same session with a given timeline; and a run
  of \<open>k\<close> candles numbered from 0.\<close>

definition default_session :: "string \<Rightarrow> int streamer" where
  "default_session ex = init ''BTCUSDT'' ''1m'' ex ''data''"

definition loaded_session :: "string \<Rightarrow> int candle list \<Rightarrow> int streamer" where
  "loaded_session ex cs = (default_session ex)\<lparr>candles := cs\<rparr>"

definition live_run :: "nat \<Rightarrow> int candle list" where
  "live_run k = map (\<lambda>n. flat_candle (int n) (Some (JBool True))) [0..<k]"

text \<open>A Bybit response whose five klines come in ascending order but for the last two.\<close>

definition bybit_page :: "int json" where
  "bybit_page =
     JObj [(''result'', JObj [(''list'', JArr [flat_kline 1, flat_kline 2, flat_kline 3,
                                               flat_kline 5, flat_kline 4])])]"

text \<open>A Bybit push for the 15-minute topic, an OKX push whose only row is still in progress
  (last field \<open>0\<close>), and the decoder on these two texts.\<close>

definition bybit_tick_text :: string where
  \<open>bybit_tick_text = ''{"topic": "kline.15.BTCUSDT", "data": [{"start": 5, "open": 5, "high": 5, "low": 5, "close": 5, "volume": 5, "confirm": false}]}''\<close>

definition bybit_tick :: "int json" where
  "bybit_tick =
     JObj [(''topic'', JStr ''kline.15.BTCUSDT''),
           (''data'', JArr [JObj [(''start'', JInt 5), (''open'', JInt 5), (''high'', JInt 5),
                                  (''low'', JInt 5), (''close'', JInt 5), (''volume'', JInt 5),
                                  (''confirm'', JBool False)]])]"

definition okx_push_text :: string where
  \<open>okx_push_text = ''{"arg": {"channel": "candle1m", "instId": "BTC-USDT-SWAP"}, "data": [ [7, 7, 7, 7, 7, 7, 7, 7, 0] ]}''\<close>

definition okx_push :: "int json" where
  "okx_push =
     JObj [(''arg'', JObj [(''channel'', JStr ''candle1m''), (''instId'', JStr ''BTC-USDT-SWAP'')]),
           (''data'', JArr [JArr [JInt 7, JInt 7, JInt 7, JInt 7, JInt 7, JInt 7, JInt 7,
                                  JInt 7, JInt 0]])]"

definition tick_lib :: "int pylib" where
  "tick_lib = int_lib [(bybit_tick_text, bybit_tick), (okx_push_text, okx_push)]"

section \<open>Interval lookup\<close>

lemma dict_get_absent: "map_of d k = None \<Longrightarrow> dict_get d k dflt = dflt"
  by (simp add: dict_get_def)

lemma dict_get_present: "map_of d k = Some v \<Longrightarrow> dict_get d k dflt \<in> snd ` set d"
  by (auto simp: dict_get_def dest!: map_of_SomeD intro: rev_image_eqI)

text \<open>
  Claim C9. On each of the three exchanges, a timeframe that is not a key of the exchange's
  interval table is looked up to the fixed default (\<open>'1'\<close> on Bybit, \<open>'1m'\<close> on Binance and on
  OKX), and each of the timeframes 1m, 5m, 15m, 1h, 4h, 1D is looked up to a value of that
  exchange's table.
\<close>

theorem interval_lookup_total:
  "(map_of (intervals bybit_cfg) tf = None \<longrightarrow> bybit_interval tf = ''1'') \<and>
   (map_of (intervals binance_cfg) tf = None \<longrightarrow> binance_interval tf = ''1m'') \<and>
   (map_of (intervals okx_cfg) tf = None \<longrightarrow> okx_interval tf = ''1m'') \<and>
   (tf \<in> documented_timeframes \<longrightarrow>
      bybit_interval tf \<in> snd ` set (intervals bybit_cfg) \<and>
      binance_interval tf \<in> snd ` set (intervals binance_cfg) \<and>
      okx_interval tf \<in> snd ` set (intervals okx_cfg))"
proof -
  have absent: "map_of (intervals bybit_cfg) tf = None \<longrightarrow> bybit_interval tf = ''1''"
    "map_of (intervals binance_cfg) tf = None \<longrightarrow> binance_interval tf = ''1m''"
    "map_of (intervals okx_cfg) tf = None \<longrightarrow> okx_interval tf = ''1m''"
    by (simp_all add: bybit_interval_def binance_interval_def okx_interval_def dict_get_absent)
  have present: "bybit_interval tf \<in> snd ` set (intervals bybit_cfg) \<and>
      binance_interval tf \<in> snd ` set (intervals binance_cfg) \<and>
      okx_interval tf \<in> snd ` set (intervals okx_cfg)" if "tf \<in> documented_timeframes"
  proof -
    from that consider "tf = ''1m''" | "tf = ''5m''" | "tf = ''15m''"
      | "tf = ''1h''" | "tf = ''4h''" | "tf = ''1D''"
      by (auto simp: documented_timeframes_def)
    then show ?thesis
      by cases
        (simp_all add: bybit_interval_def binance_interval_def okx_interval_def dict_get_def
          bybit_cfg_def binance_cfg_def okx_cfg_def)
  qed
  from absent present show ?thesis by blast
qed

theorem interval_lookup_total_witness:
  "map_of (intervals okx_cfg) ''1s'' = None \<and> okx_interval ''1s'' = ''1m'' \<and>
   map_of (intervals bybit_cfg) ''2h'' = None \<and> bybit_interval ''2h'' = ''1'' \<and>
   map_of (intervals binance_cfg) ''2h'' = None \<and> binance_interval ''2h'' = ''1m'' \<and>
   ''1h'' \<in> documented_timeframes \<and>
   bybit_interval ''1h'' \<in> snd ` set (intervals bybit_cfg) \<and>
   binance_interval ''1h'' \<in> snd ` set (intervals binance_cfg) \<and>
   okx_interval ''1h'' \<in> snd ` set (intervals okx_cfg)"
proof -
  have a: "map_of (intervals okx_cfg) ''1s'' = None"
    "map_of (intervals bybit_cfg) ''2h'' = None"
    "map_of (intervals binance_cfg) ''2h'' = None"
    by (simp_all add: okx_cfg_def bybit_cfg_def binance_cfg_def)
  have d: "''1h'' \<in> documented_timeframes"
    by (simp add: documented_timeframes_def)
  from a d interval_lookup_total [of "''1s''"] interval_lookup_total [of "''2h''"]
    interval_lookup_total [of "''1h''"]
  show ?thesis by blast
qed


section \<open>The timeline buffer\<close>

lemma candles_save_csv: "candles (save_csv l s) = candles s"
  by (simp add: save_csv_def)

lemma candles_autosave: "candles (autosave s) = candles s"
  by (simp add: autosave_def candles_save_csv)

lemma candles_append_capped: "candles (append_capped c s) = last_n 10000 (candles s @ [c])"
  by (simp add: append_capped_def last_n_def Let_def)

lemma append_capped_fields:
  "written (append_capped c s) = written s"
  "observed (append_capped c s) = observed s"
  "on_candle_callback (append_capped c s) = on_candle_callback s"
  "csv_filename (append_capped c s) l = csv_filename s l"
  "symbol (append_capped c s) = symbol s"
  "timeframe (append_capped c s) = timeframe s"
  "output_dir (append_capped c s) = output_dir s"
  by (simp_all add: append_capped_def Let_def csv_filename_def)

lemma append_capped_nonempty: "candles (append_capped c s) \<noteq> []"
  by (simp add: candles_append_capped last_n_def)

text \<open>\<open>_process_candle\<close> by cases on the observer.\<close>

lemma process_candle_cases:
  "process_candle c s =
     (case on_candle_callback s of
        None \<Rightarrow> (Returned, autosave (append_capped c s))
      | Some f \<Rightarrow>
          (case f c of
             Some e \<Rightarrow> (Raised e, (append_capped c s)\<lparr>observed := observed s @ [c]\<rparr>)
           | None \<Rightarrow> (Returned, autosave ((append_capped c s)\<lparr>observed := observed s @ [c]\<rparr>))))"
  by (simp add: process_candle_def Let_def append_capped_fields split: option.splits)

lemma candles_process_candle:
  "candles (snd (process_candle c s)) = last_n 10000 (candles s @ [c])"
  by (simp add: process_candle_cases candles_append_capped candles_autosave
      split: option.splits)

lemma last_n_last_n_append: "last_n n (last_n n xs @ ys) = last_n n (xs @ ys)"
  by (cases "length xs \<le> n") (simp_all add: last_n_def add.commute)

lemma length_last_n: "length (last_n n xs) = min n (length xs)"
  by (simp add: last_n_def)

lemma set_last_n: "set (last_n n xs) \<subseteq> set xs"
  by (simp add: last_n_def set_drop_subset)

lemma process_all_Cons: "process_all (c # cs) s = process_all cs (snd (process_candle c s))"
  by (simp add: process_all_def)

text \<open>After any non-empty run of live candles the timeline is the last 10000 of the old
  timeline followed by the run.\<close>

lemma candles_process_all:
  "cs \<noteq> [] \<Longrightarrow> candles (process_all cs s) = last_n 10000 (candles s @ cs)"
proof (induction cs arbitrary: s)
  case Nil
  then show ?case by simp
next
  case (Cons c cs)
  show ?case
  proof (cases "cs = []")
    case True
    then show ?thesis by (simp add: process_all_def candles_process_candle)
  next
    case False
    with Cons.IH [of "snd (process_candle c s)"] show ?thesis
      by (simp add: process_all_Cons candles_process_candle last_n_last_n_append)
  qed
qed

lemma stop_fields:
  "running (stop s) = False" "ws (stop s) = ws s"
  "symbol (stop s) = symbol s" "timeframe (stop s) = timeframe s"
  "output_dir (stop s) = output_dir s"
  "written (stop s) =
     written s @ (if candles s = [] then [] else [(csv_filename s ''final'', candles s)])"
  by (cases "ws s"; simp add: stop_def Let_def save_csv_def csv_filename_def)+

lemma candles_stop: "candles (stop s) = candles s"
  by (simp add: stop_def Let_def candles_save_csv split: option.splits)

lemma candles_fetch_historical:
  "candles (snd (fetch_historical lib http limit s)) = candles s \<or>
   candles (snd (fetch_historical lib http limit s)) = fst (fetch_historical lib http limit s)"
  by (simp add: fetch_historical_def candles_save_csv split: sum.splits)

lemma process_candle_bounded: "length (candles (snd (process_candle c s))) \<le> 10000"
  by (simp add: candles_process_candle length_last_n)

lemma bybit_on_message_bounded:
  "length (candles s) \<le> 10000 \<Longrightarrow> length (candles (bybit_on_message lib i m s)) \<le> 10000"
  by (simp add: bybit_on_message_def process_candle_bounded split: sum.splits option.splits)

lemma binance_on_message_bounded:
  "length (candles s) \<le> 10000 \<Longrightarrow> length (candles (binance_on_message lib m s)) \<le> 10000"
  by (simp add: binance_on_message_def process_candle_bounded split: sum.splits option.splits)

lemma okx_loop_bounded:
  "length (candles s) \<le> 10000 \<Longrightarrow> length (candles (okx_loop lib ks s)) \<le> 10000"
proof (induction ks arbitrary: s)
  case Nil
  then show ?case by simp
next
  case (Cons k ks)
  show ?case
  proof (cases "okx_live_candle lib k")
    case (Inl e)
    with Cons.prems show ?thesis by simp
  next
    case (Inr c)
    obtain out s' where p: "process_candle c s = (out, s')"
      by (cases "process_candle c s")
    then have b: "length (candles s') \<le> 10000"
      using process_candle_bounded [of c s] by simp
    show ?thesis
    proof (cases out)
      case Returned
      with Inr p Cons.IH [OF b] show ?thesis by simp
    next
      case (Raised e)
      with Inr p b show ?thesis by simp
    qed
  qed
qed

lemma okx_on_message_bounded:
  "length (candles s) \<le> 10000 \<Longrightarrow> length (candles (okx_on_message lib m s)) \<le> 10000"
  by (simp add: okx_on_message_def okx_loop_bounded split: sum.splits option.splits)

lemma bybit_run_bounded:
  "length (candles s) \<le> 10000 \<Longrightarrow> length (candles (bybit_run_forever lib i es s)) \<le> 10000"
proof (induction lib i es s rule: bybit_run_forever.induct)
  case (2 lib interval es s)
  then show ?case by (simp add: bybit_on_open_def)
next
  case (3 lib interval m es s)
  then show ?case by (simp add: bybit_on_message_bounded)
next
  case (5 lib interval es s)
  then show ?case by (simp add: candles_stop)
next
  case (6 lib interval es s)
  then show ?case by (simp add: open_socket_def sleep_def)
qed simp_all

lemma binance_run_bounded:
  "length (candles s) \<le> 10000 \<Longrightarrow> length (candles (binance_run_forever lib es s)) \<le> 10000"
proof (induction lib es s rule: binance_run_forever.induct)
  case (3 lib m es s)
  then show ?case by (simp add: binance_on_message_bounded)
next
  case (5 lib es s)
  then show ?case by (simp add: candles_stop)
qed simp_all

lemma okx_run_bounded:
  "length (candles s) \<le> 10000 \<Longrightarrow> length (candles (okx_run_forever lib i es s)) \<le> 10000"
proof (induction lib i es s rule: okx_run_forever.induct)
  case (2 lib interval es s)
  then show ?case by (simp add: okx_on_open_def)
next
  case (3 lib interval m es s)
  then show ?case by (simp add: okx_on_message_bounded)
next
  case (5 lib interval es s)
  then show ?case by (simp add: candles_stop)
qed simp_all

lemma start_live_bounded:
  "length (candles s) \<le> 10000 \<Longrightarrow> length (candles (start_live lib cb es s)) \<le> 10000"
  by (simp add: start_live_def Let_def start_bybit_ws_def start_binance_ws_def start_okx_ws_def
      bybit_run_bounded binance_run_bounded okx_run_bounded open_socket_def)

text \<open>Evaluation of the historical path on the stand-ins.\<close>

lemma historical_flat_kline:
  "historical_candle (int_lib t) (flat_kline n) = Inr (flat_candle n None)"
  by (simp add: historical_candle_def ebind_def int_lib_def flat_kline_def flat_candle_def
      field_time_def field_float_def)

lemma collect_replicate: "f x = Inr y \<Longrightarrow> collect f (replicate n x) = Inr (replicate n y)"
  by (induction n) (simp_all add: ebind_def)

lemma collect_flat_klines:
  "collect (historical_candle (int_lib t)) (replicate k (flat_kline n)) =
     Inr (replicate k (flat_candle n None))"
  by (rule collect_replicate) (rule historical_flat_kline)

text \<open>
  Claim C3, as stated, at a historical sync: the claim has the timeline at 10000 candles at
  most after any operation, and \<open>fetch_historical\<close> stores the whole page it was sent, here
  a Binance page of 10001 klines.
\<close>

theorem timeline_bound_counterexample:
  "\<not> length (candles (snd (fetch_historical (int_lib [])
        (fixed_http (JArr (replicate 10001 (flat_kline 0)))) 1500
        (default_session ''binance'')))) \<le> 10000"
  by (simp add: fetch_historical_def fetch_binance_historical_def binance_klines_def
      fixed_http_def default_session_def init_def ebind_def collect_flat_klines save_csv_def)

text \<open>
  Claim C3, amended. The timeline holds at most 10000 candles after every live append,
  whatever it held before; the live handlers of the three exchanges, \<open>stop\<close> and a whole
  \<open>start_live\<close> run keep a timeline of at most 10000 candles within that bound; a
  historical sync leaves the timeline as it was or replaces it with the page it returns,
  uncapped. After 10050 live candles the timeline has exactly 10000 entries: the last 10000
  of the run, in the order of arrival.
\<close>

theorem timeline_bound:
  "length (candles (snd (process_candle c s))) \<le> 10000 \<and>
   (length (candles s) \<le> 10000 \<longrightarrow>
      length (candles (bybit_on_message lib i m s)) \<le> 10000 \<and>
      length (candles (binance_on_message lib m s)) \<le> 10000 \<and>
      length (candles (okx_on_message lib m s)) \<le> 10000 \<and>
      length (candles (stop s)) \<le> 10000 \<and>
      length (candles (start_live lib cb es s)) \<le> 10000) \<and>
   (candles (snd (fetch_historical lib http limit s)) = candles s \<or>
    candles (snd (fetch_historical lib http limit s)) = fst (fetch_historical lib http limit s)) \<and>
   (length cs = 10050 \<longrightarrow>
      length (candles (process_all cs s)) = 10000 \<and>
      candles (process_all cs s) = drop 50 cs)"
proof -
  have tail: "length (candles (process_all cs s)) = 10000 \<and>
      candles (process_all cs s) = drop 50 cs" if len: "length cs = 10050"
  proof -
    from len have "cs \<noteq> []" by auto
    then have "candles (process_all cs s) = last_n 10000 (candles s @ cs)"
      by (rule candles_process_all)
    also from len have "\<dots> = drop 50 cs"
      by (simp add: last_n_def)
    finally show ?thesis using len by simp
  qed
  have sync: "candles (snd (fetch_historical lib http limit s)) = candles s \<or>
    candles (snd (fetch_historical lib http limit s)) = fst (fetch_historical lib http limit s)"
    by (rule candles_fetch_historical)
  from tail sync show ?thesis
    by (simp add: process_candle_bounded bybit_on_message_bounded binance_on_message_bounded
        okx_on_message_bounded candles_stop start_live_bounded)
qed

theorem timeline_bound_witness:
  "length (candles (default_session ''bybit'')) \<le> 10000 \<and>
   length (candles (stop (default_session ''bybit''))) \<le> 10000 \<and>
   length (live_run 10050) = 10050 \<and>
   length (candles (process_all (live_run 10050) (default_session ''bybit''))) = 10000 \<and>
   candles (process_all (live_run 10050) (default_session ''bybit'')) = drop 50 (live_run 10050)"
proof -
  have small: "length (candles (default_session ''bybit'')) \<le> 10000"
    by (simp add: default_session_def init_def)
  have len: "length (live_run 10050) = 10050"
    by (simp add: live_run_def)
  from small len
    timeline_bound [where s = "default_session ''bybit''" and cs = "live_run 10050"]
  show ?thesis by blast
qed


section \<open>Checkpoints\<close>

lemma written_autosave:
  "written (autosave s) =
     written s @ (if length (candles s) mod 100 = 0 \<and> candles s \<noteq> []
                  then [(csv_filename s ''live'', candles s)] else [])"
  by (simp add: autosave_def save_csv_def)

text \<open>
  Claim C8, as stated, on a session that holds 99 candles and whose observer raises: the
  hundredth candle is appended, the length of the timeline is 100, and no snapshot is
  written, since the exception of the observer leaves \<open>_process_candle\<close> before the test
  of the length.
\<close>

theorem live_checkpoint_counterexample:
  "length (candles (snd (process_candle (flat_candle 99 None)
     ((loaded_session ''bybit'' (live_run 99))\<lparr>on_candle_callback := Some failing_observer\<rparr>))))
     = 100 \<and>
   written (snd (process_candle (flat_candle 99 None)
     ((loaded_session ''bybit'' (live_run 99))\<lparr>on_candle_callback := Some failing_observer\<rparr>)))
     = []"
proof -
  let ?t = "(loaded_session ''bybit'' (live_run 99))\<lparr>on_candle_callback := Some failing_observer\<rparr>"
  have len: "length (candles (snd (process_candle (flat_candle 99 None) ?t))) = 100"
    by (simp add: candles_process_candle length_last_n loaded_session_def live_run_def)
  have wr: "written (snd (process_candle (flat_candle 99 None) ?t)) = []"
    by (simp add: process_candle_cases failing_observer_def append_capped_fields
        loaded_session_def default_session_def init_def)
  from len wr show ?thesis by simp
qed

text \<open>
  Claim C8, amended. When \<open>_process_candle\<close> returns, it has written a snapshot labelled
  live exactly if the length of the timeline, after the append and the cut to 10000, is a
  multiple of 100, and the snapshot holds that timeline; when the observer raises, the
  method is left before the test and nothing is written, whatever the length. The test
  reads the length of the buffer: the session has no counter of candles.
\<close>

theorem live_checkpoint_iff:
  "(fst (process_candle c s) = Returned \<longrightarrow>
      written (snd (process_candle c s)) =
        written s @ (if length (candles (snd (process_candle c s))) mod 100 = 0
                     then [(csv_filename s ''live'', candles (snd (process_candle c s)))]
                     else [])) \<and>
   (fst (process_candle c s) \<noteq> Returned \<longrightarrow> written (snd (process_candle c s)) = written s)"
proof (cases "on_candle_callback s")
  case None
  then show ?thesis
    using append_capped_nonempty [of c s]
    by (simp add: process_candle_cases written_autosave append_capped_fields candles_autosave)
next
  case (Some f)
  show ?thesis
  proof (cases "f c")
    case None
    with Some show ?thesis
      using append_capped_nonempty [of c s]
      by (simp add: process_candle_cases written_autosave append_capped_fields candles_autosave
          csv_filename_def)
  next
    case (Some e)
    with \<open>on_candle_callback s = Some f\<close> show ?thesis
      by (simp add: process_candle_cases append_capped_fields)
  qed
qed

theorem live_checkpoint_iff_witness:
  "fst (process_candle (flat_candle 99 None) (loaded_session ''bybit'' (live_run 99))) = Returned \<and>
   length (candles (snd (process_candle (flat_candle 99 None)
       (loaded_session ''bybit'' (live_run 99))))) mod 100 = 0 \<and>
   written (snd (process_candle (flat_candle 99 None) (loaded_session ''bybit'' (live_run 99)))) =
     [(''data/BTCUSDT_1m_live.csv'',
       candles (snd (process_candle (flat_candle 99 None)
         (loaded_session ''bybit'' (live_run 99)))))] \<and>
   fst (process_candle (flat_candle 99 None)
     ((loaded_session ''bybit'' (live_run 99))\<lparr>on_candle_callback := Some failing_observer\<rparr>))
     \<noteq> Returned \<and>
   written (snd (process_candle (flat_candle 99 None)
     ((loaded_session ''bybit'' (live_run 99))\<lparr>on_candle_callback := Some failing_observer\<rparr>)))
     = []"
proof -
  let ?s = "loaded_session ''bybit'' (live_run 99)"
  let ?t = "?s\<lparr>on_candle_callback := Some failing_observer\<rparr>"
  let ?c = "flat_candle 99 None"
  have ret: "fst (process_candle ?c ?s) = Returned"
    by (simp add: process_candle_cases loaded_session_def default_session_def init_def)
  have len: "length (candles (snd (process_candle ?c ?s))) mod 100 = 0"
    by (simp add: candles_process_candle length_last_n loaded_session_def live_run_def)
  have name: "csv_filename ?s ''live'' = ''data/BTCUSDT_1m_live.csv''"
    by (simp add: csv_filename_def loaded_session_def default_session_def init_def)
  have empty: "written ?s = []" "written ?t = []"
    by (simp_all add: loaded_session_def default_session_def init_def)
  have raised: "fst (process_candle ?c ?t) \<noteq> Returned"
    by (simp add: process_candle_cases failing_observer_def)
  from ret len name empty raised
    live_checkpoint_iff [of ?c ?s] live_checkpoint_iff [of ?c ?t]
  show ?thesis by simp
qed

text \<open>
  Claim C6, as stated, on a session whose timeline is empty: \<open>stop\<close> writes no snapshot,
  since \<open>_save_csv\<close> returns at once on an empty timeline.
\<close>

theorem stop_effect_counterexample:
  "written (stop (default_session ''bybit'')) = []"
  by (simp add: stop_def save_csv_def default_session_def init_def)

text \<open>
  Claim C6, amended. \<open>stop\<close> sets the running flag to false, closes the socket if the
  session has one, leaves the timeline as it is, and writes one snapshot labelled final
  holding the timeline when the timeline is not empty, none when it is empty.
\<close>

theorem stop_effect:
  "running (stop s) = False \<and>
   wire (stop s) = wire s @ (if ws s = None then [] else [CloseConn]) \<and>
   candles (stop s) = candles s \<and>
   written (stop s) =
     written s @ (if candles s = [] then [] else [(csv_filename s ''final'', candles s)])"
  by (cases "ws s") (simp_all add: stop_def Let_def save_csv_def csv_filename_def)

theorem stop_effect_witness:
  "running (stop (open_socket (ws_url bybit_cfg)
       (loaded_session ''bybit'' [flat_candle 1 None]))) = False \<and>
   wire (stop (open_socket (ws_url bybit_cfg) (loaded_session ''bybit'' [flat_candle 1 None]))) =
     [Connect ''wss://stream.bybit.com/v5/public/linear'', CloseConn] \<and>
   written (stop (open_socket (ws_url bybit_cfg)
       (loaded_session ''bybit'' [flat_candle 1 None]))) =
     [(''data/BTCUSDT_1m_final.csv'', [flat_candle 1 None])]"
  using stop_effect [of "open_socket (ws_url bybit_cfg)
      (loaded_session ''bybit'' [flat_candle 1 None])"]
  by (simp add: open_socket_def loaded_session_def default_session_def init_def
      csv_filename_def bybit_cfg_def)

lemma csv_filename_stop: "csv_filename (stop s) l = csv_filename s l"
  by (simp add: csv_filename_def stop_fields)

text \<open>
  Claim C7, as stated, on two sessions: with an empty timeline two calls of \<open>stop\<close> write
  no final snapshot at all, and with one candle in the timeline they write it twice.
\<close>

theorem stop_twice_counterexample:
  "written (stop (stop (default_session ''bybit''))) = [] \<and>
   written (stop (stop (loaded_session ''bybit'' [flat_candle 1 None]))) =
     [(''data/BTCUSDT_1m_final.csv'', [flat_candle 1 None]),
      (''data/BTCUSDT_1m_final.csv'', [flat_candle 1 None])]"
  by (simp add: stop_def save_csv_def csv_filename_def loaded_session_def default_session_def
      init_def)

text \<open>
  Claim C7, amended. A second call of \<open>stop\<close> leaves the running flag, the timeline, the
  socket handle and the snapshot stored at every path as the first call left them. It
  writes the final snapshot once more, to the same path and with the same rows, when the
  timeline is not empty, and writes nothing when it is empty. Neither call raises: \<open>stop\<close>
  is a function from sessions to sessions.
\<close>

theorem stop_twice:
  "running (stop (stop s)) = running (stop s) \<and>
   candles (stop (stop s)) = candles (stop s) \<and>
   ws (stop (stop s)) = ws (stop s) \<and>
   snapshot_at (stop (stop s)) = snapshot_at (stop s) \<and>
   written (stop (stop s)) =
     written (stop s) @ (if candles s = [] then [] else [(csv_filename s ''final'', candles s)])"
proof -
  have w: "written (stop (stop s)) =
     written (stop s) @ (if candles s = [] then [] else [(csv_filename s ''final'', candles s)])"
    by (simp add: stop_fields(6) [of "stop s"] candles_stop csv_filename_stop)
  have snap: "snapshot_at (stop (stop s)) = snapshot_at (stop s)"
  proof (cases "candles s = []")
    case True
    with w show ?thesis by (simp add: snapshot_at_def fun_eq_iff)
  next
    case False
    then show ?thesis
      unfolding snapshot_at_def fun_eq_iff w
      by (simp add: stop_fields(6) [of s])
  qed
  from w snap show ?thesis
    by (simp add: stop_fields candles_stop)
qed

theorem stop_twice_witness:
  "running (stop (stop (loaded_session ''bybit'' [flat_candle 1 None]))) = False \<and>
   candles (stop (stop (loaded_session ''bybit'' [flat_candle 1 None]))) = [flat_candle 1 None] \<and>
   snapshot_at (stop (stop (loaded_session ''bybit'' [flat_candle 1 None])))
     ''data/BTCUSDT_1m_final.csv'' = Some [flat_candle 1 None] \<and>
   snapshot_at (stop (loaded_session ''bybit'' [flat_candle 1 None]))
     ''data/BTCUSDT_1m_final.csv'' = Some [flat_candle 1 None]"
proof -
  let ?s = "loaded_session ''bybit'' [flat_candle 1 None]"
  have first: "running (stop ?s) = False" "candles (stop ?s) = [flat_candle 1 None]"
    "snapshot_at (stop ?s) ''data/BTCUSDT_1m_final.csv'' = Some [flat_candle 1 None]"
    by (simp_all add: stop_def save_csv_def csv_filename_def snapshot_at_def loaded_session_def
        default_session_def init_def)
  from first stop_twice [of ?s] show ?thesis by simp
qed


section \<open>Historical fetch: what is returned\<close>

lemma collect_Inr:
  "collect f xs = Inr ys \<Longrightarrow> length ys = length xs \<and> (\<forall>y\<in>set ys. \<exists>x\<in>set xs. f x = Inr y)"
proof (induction xs arbitrary: ys)
  case Nil
  then show ?case by simp
next
  case (Cons x xs)
  from Cons.prems obtain y ys' where fx: "f x = Inr y" and c: "collect f xs = Inr ys'"
    and ys: "ys = y # ys'"
    by (auto simp: ebind_def split: sum.splits)
  from Cons.IH [OF c] fx ys show ?case by auto
qed

lemma historical_candle_unflagged: "historical_candle lib k = Inr c \<Longrightarrow> confirmed c = None"
  by (auto simp: historical_candle_def ebind_def split: sum.splits)

lemma fetcher_results:
  assumes "fetch_bybit_historical lib http limit s = Inr cs \<or>
           fetch_binance_historical lib http limit s = Inr cs \<or>
           fetch_okx_historical lib http limit s = Inr cs"
  shows "\<forall>c\<in>set cs. confirmed c = None"
proof -
  from assms obtain ks cs' where c: "collect (historical_candle lib) ks = Inr cs'"
    and s: "set cs = set cs'"
    by (auto simp: fetch_bybit_historical_def fetch_binance_historical_def
        fetch_okx_historical_def ebind_def split: sum.splits)
  from collect_Inr [OF c] s show ?thesis
    by (auto dest: historical_candle_unflagged)
qed

lemma fetch_historical_cases:
  "fst (fetch_historical lib http limit s) = [] \<or>
   fetch_bybit_historical lib http limit s = Inr (fst (fetch_historical lib http limit s)) \<or>
   fetch_binance_historical lib http limit s = Inr (fst (fetch_historical lib http limit s)) \<or>
   fetch_okx_historical lib http limit s = Inr (fst (fetch_historical lib http limit s))"
  unfolding fetch_historical_def by (simp split: sum.splits)

lemmas fetch_eval = default_session_def init_def int_lib_def fixed_http_def
  flat_kline_def flat_candle_def bybit_page_def ebind_def historical_candle_def field_time_def
  field_float_def fetch_historical_def fetch_bybit_historical_def fetch_binance_historical_def
  fetch_okx_historical_def bybit_klines_def binance_klines_def okx_klines_def
  requested_klines_def save_csv_def csv_filename_def

text \<open>
  Claim C5, as stated, on a Binance page of one kline: the candle returned has no
  \<open>confirmed\<close> key, so its flag is not \<open>True\<close>.
\<close>

theorem historical_confirmed_counterexample:
  "fst (fetch_historical (int_lib []) (fixed_http (JArr [flat_kline 1])) 1
      (default_session ''binance'')) = [flat_candle 1 None] \<and>
   confirmed (flat_candle 1 None) \<noteq> Some (JBool True)"
  by (simp add: fetch_eval)

text \<open>
  Claim C5, amended. Every candle returned by \<open>fetch_historical\<close>, on every exchange,
  carries no \<open>confirmed\<close> key at all.
\<close>

theorem historical_candles_unflagged:
  "\<forall>c\<in>set (fst (fetch_historical lib http limit s)). confirmed c = None"
  using fetch_historical_cases [of lib http limit s]
    fetcher_results [of lib http limit s "fst (fetch_historical lib http limit s)"]
  by auto

theorem historical_candles_unflagged_witness:
  "flat_candle 4 None \<in> set (fst (fetch_historical (int_lib []) (fixed_http bybit_page) 5
      (default_session ''bybit''))) \<and>
   confirmed (flat_candle 4 None) = None"
proof -
  have m: "flat_candle 4 None \<in> set (fst (fetch_historical (int_lib []) (fixed_http bybit_page) 5
      (default_session ''bybit'')))"
    by (simp add: fetch_eval)
  have "confirmed (flat_candle 4 None) = None"
    by (rule bspec [OF historical_candles_unflagged m])
  with m show ?thesis by simp
qed

lemma sorted_fetchers:
  "fetch_bybit_historical lib http limit s = Inr cs \<Longrightarrow> sorted (map timestamp cs)"
  "fetch_okx_historical lib http limit s = Inr cs \<Longrightarrow> sorted (map timestamp cs)"
  by (auto simp: fetch_bybit_historical_def fetch_okx_historical_def ebind_def
      split: sum.splits)

lemma fetch_historical_sorted:
  "exchange s \<noteq> ''binance'' \<Longrightarrow> sorted (map timestamp (fst (fetch_historical lib http limit s)))"
  by (auto simp: fetch_historical_def sorted_fetchers split: sum.splits)

lemma fetcher_lengths:
  "fetch_bybit_historical lib http limit s = Inr cs \<Longrightarrow>
     \<exists>ks. bybit_klines http limit s = Inr ks \<and> length cs = length ks"
  "fetch_binance_historical lib http limit s = Inr cs \<Longrightarrow>
     \<exists>ks. binance_klines http limit s = Inr ks \<and> length cs = length ks"
  "fetch_okx_historical lib http limit s = Inr cs \<Longrightarrow>
     \<exists>ks. okx_klines http limit s = Inr ks \<and> length cs = length ks"
  by (auto simp: fetch_bybit_historical_def fetch_binance_historical_def
      fetch_okx_historical_def ebind_def split: sum.splits dest: collect_Inr)

lemma fetcher_errors:
  "bybit_klines http limit s = Inl e \<Longrightarrow> fetch_bybit_historical lib http limit s = Inl e"
  "binance_klines http limit s = Inl e \<Longrightarrow> fetch_binance_historical lib http limit s = Inl e"
  "okx_klines http limit s = Inl e \<Longrightarrow> fetch_okx_historical lib http limit s = Inl e"
  by (simp_all add: fetch_bybit_historical_def fetch_binance_historical_def
      fetch_okx_historical_def ebind_def)

text \<open>What \<open>fetch_historical\<close> returns, from the rows of the response.\<close>

lemma fetch_historical_exact:
  "fst (fetch_historical lib http limit s) =
     (case requested_klines http limit s of
        Inl e \<Rightarrow> []
      | Inr klines \<Rightarrow>
          (case collect (historical_candle lib) klines of
             Inl e \<Rightarrow> []
           | Inr cs \<Rightarrow> if exchange s = ''binance'' then cs else sort_key timestamp cs))"
  by (simp add: fetch_historical_def requested_klines_def fetch_bybit_historical_def
      fetch_binance_historical_def fetch_okx_historical_def ebind_def split: sum.splits)

lemma fetch_historical_one_per_kline:
  "case requested_klines http limit s of
     Inl e \<Rightarrow> fst (fetch_historical lib http limit s) = []
   | Inr klines \<Rightarrow>
       (case collect (historical_candle lib) klines of
          Inl e \<Rightarrow> fst (fetch_historical lib http limit s) = []
        | Inr cs \<Rightarrow> length (fst (fetch_historical lib http limit s)) = length klines \<and>
                     mset (fst (fetch_historical lib http limit s)) = mset cs)"
  by (auto simp: fetch_historical_exact split: sum.splits dest: collect_Inr)

text \<open>The fetch makes one request, and depends on the collaborator through its answer to
  that request only.\<close>

lemma fetch_historical_request:
  "exchange s = ''bybit'' \<Longrightarrow>
   http (rest bybit_cfg) (bybit_params s limit) = http' (rest bybit_cfg) (bybit_params s limit) \<Longrightarrow>
   fetch_historical lib http limit s = fetch_historical lib http' limit s"
  "exchange s = ''binance'' \<Longrightarrow>
   http (rest binance_cfg) (binance_params s limit) =
     http' (rest binance_cfg) (binance_params s limit) \<Longrightarrow>
   fetch_historical lib http limit s = fetch_historical lib http' limit s"
  "exchange s = ''okx'' \<Longrightarrow>
   http (rest okx_cfg) (okx_params s limit) = http' (rest okx_cfg) (okx_params s limit) \<Longrightarrow>
   fetch_historical lib http limit s = fetch_historical lib http' limit s"
  by (simp_all add: fetch_historical_def fetch_bybit_historical_def fetch_binance_historical_def
      fetch_okx_historical_def bybit_klines_def binance_klines_def okx_klines_def)

text \<open>Binance's fetcher returns the candles in the order of the response.\<close>

lemma binance_order_kept:
  "map timestamp (fst (fetch_historical (int_lib [])
      (fixed_http (JArr [flat_kline 2, flat_kline 1])) 2 (default_session ''binance''))) = [2, 1]"
  by (simp add: fetch_eval)

text \<open>
  Claim C2, as stated, on Bybit with \<open>limit = 3\<close> and a response of five klines: five
  candles are returned, more than \<open>min(3, 1000)\<close>. The limit goes into the request; the
  response is not cut to it.
\<close>

theorem fetch_historical_counterexample:
  "\<not> int (length (fst (fetch_historical (int_lib []) (fixed_http bybit_page) 3
        (default_session ''bybit'')))) \<le> min 3 1000"
  by (simp add: fetch_eval)

text \<open>
  Claim C2, amended. On every exchange but Binance the sequence \<open>fetch_historical\<close>
  returns is sorted non-decreasing by timestamp. The fetch makes one request, which asks
  for \<open>min(limit, 1000)\<close> klines on Bybit, \<open>min(limit, 1500)\<close> on Binance and
  \<open>min(limit, 300)\<close> on OKX, and it depends on the HTTP collaborator through the answer
  to that request only. The sequence returned is empty when the fetch fails (the request,
  the envelope or the reading of some kline raises); otherwise it holds exactly one candle
  for each kline of the response, namely the candles read from the klines. The response
  is not cut to the limit: the sequence is as long as the exchange made its response.
\<close>

theorem fetch_historical_shape:
  "(exchange s \<noteq> ''binance'' \<longrightarrow>
      sorted (map timestamp (fst (fetch_historical lib http limit s)))) \<and>
   map_of (bybit_params s limit) ''limit'' = Some (JInt (min limit 1000)) \<and>
   map_of (binance_params s limit) ''limit'' = Some (JInt (min limit 1500)) \<and>
   map_of (okx_params s limit) ''limit'' = Some (JInt (min limit 300)) \<and>
   (exchange s = ''bybit'' \<and>
    http (rest bybit_cfg) (bybit_params s limit) = http' (rest bybit_cfg) (bybit_params s limit)
      \<longrightarrow> fetch_historical lib http limit s = fetch_historical lib http' limit s) \<and>
   (exchange s = ''binance'' \<and>
    http (rest binance_cfg) (binance_params s limit) =
      http' (rest binance_cfg) (binance_params s limit)
      \<longrightarrow> fetch_historical lib http limit s = fetch_historical lib http' limit s) \<and>
   (exchange s = ''okx'' \<and>
    http (rest okx_cfg) (okx_params s limit) = http' (rest okx_cfg) (okx_params s limit)
      \<longrightarrow> fetch_historical lib http limit s = fetch_historical lib http' limit s) \<and>
   (case requested_klines http limit s of
      Inl e \<Rightarrow> fst (fetch_historical lib http limit s) = []
    | Inr klines \<Rightarrow>
        (case collect (historical_candle lib) klines of
           Inl e \<Rightarrow> fst (fetch_historical lib http limit s) = []
         | Inr cs \<Rightarrow> length (fst (fetch_historical lib http limit s)) = length klines \<and>
                      mset (fst (fetch_historical lib http limit s)) = mset cs))"
proof -
  have params: "map_of (bybit_params s limit) ''limit'' = Some (JInt (min limit 1000))"
    "map_of (binance_params s limit) ''limit'' = Some (JInt (min limit 1500))"
    "map_of (okx_params s limit) ''limit'' = Some (JInt (min limit 300))"
    by (simp_all add: bybit_params_def binance_params_def okx_params_def)
  have rows: "case requested_klines http limit s of
      Inl e \<Rightarrow> fst (fetch_historical lib http limit s) = []
    | Inr klines \<Rightarrow>
        (case collect (historical_candle lib) klines of
           Inl e \<Rightarrow> fst (fetch_historical lib http limit s) = []
         | Inr cs \<Rightarrow> length (fst (fetch_historical lib http limit s)) = length klines \<and>
                      mset (fst (fetch_historical lib http limit s)) = mset cs)"
    by (rule fetch_historical_one_per_kline)
  from params rows fetch_historical_sorted [of s lib http limit]
    fetch_historical_request [of s http limit http' lib]
  show ?thesis by blast
qed

theorem fetch_historical_shape_witness:
  "exchange (default_session ''bybit'') \<noteq> ''binance'' \<and>
   sorted (map timestamp (fst (fetch_historical (int_lib []) (fixed_http bybit_page) 5000
      (default_session ''bybit'')))) \<and>
   fetch_historical (int_lib []) (fixed_http bybit_page) 5000 (default_session ''bybit'') =
     fetch_historical (int_lib [])
       (only_http ''https://api.bybit.com/v5/market/kline''
          [(''category'', JStr ''linear''), (''symbol'', JStr ''BTCUSDT''),
           (''interval'', JStr ''1''), (''limit'', JInt 1000)] bybit_page)
       5000 (default_session ''bybit'') \<and>
   requested_klines (fixed_http bybit_page) 5000 (default_session ''bybit'') =
     Inr [flat_kline 1, flat_kline 2, flat_kline 3, flat_kline 5, flat_kline 4] \<and>
   length (fst (fetch_historical (int_lib []) (fixed_http bybit_page) 5000
      (default_session ''bybit''))) = 5 \<and>
   mset (fst (fetch_historical (int_lib []) (fixed_http bybit_page) 5000
      (default_session ''bybit''))) =
     mset [flat_candle 1 None, flat_candle 2 None, flat_candle 3 None, flat_candle 5 None,
           flat_candle 4 None]"
proof -
  let ?s = "default_session ''bybit''"
  let ?only = "only_http ''https://api.bybit.com/v5/market/kline''
          [(''category'', JStr ''linear''), (''symbol'', JStr ''BTCUSDT''),
           (''interval'', JStr ''1''), (''limit'', JInt 1000)] bybit_page"
  have ex: "exchange ?s \<noteq> ''binance''" "exchange ?s = ''bybit''"
    by (simp_all add: default_session_def init_def)
  have same: "fixed_http bybit_page (rest bybit_cfg) (bybit_params ?s 5000) =
      ?only (rest bybit_cfg) (bybit_params ?s 5000)"
    by (simp add: fixed_http_def only_http_def bybit_params_def bybit_cfg_def bybit_interval_def
        dict_get_def default_session_def init_def)
  have rows: "requested_klines (fixed_http bybit_page) 5000 ?s =
     Inr [flat_kline 1, flat_kline 2, flat_kline 3, flat_kline 5, flat_kline 4]"
    by (simp add: requested_klines_def bybit_klines_def fixed_http_def bybit_page_def ebind_def
        default_session_def init_def)
  have read: "collect (historical_candle (int_lib []))
      [flat_kline 1, flat_kline 2, flat_kline 3, flat_kline 5, flat_kline 4] =
      Inr [flat_candle 1 None, flat_candle 2 None, flat_candle 3 None, flat_candle 5 None,
           flat_candle 4 None]"
    by (simp add: historical_flat_kline ebind_def)
  note shape = fetch_historical_shape [where s = ?s and lib = "int_lib []"
      and http = "fixed_http bybit_page" and http' = ?only and limit = 5000]
  from shape ex(1)
  have srt: "sorted (map timestamp (fst (fetch_historical (int_lib []) (fixed_http bybit_page)
      5000 ?s)))"
    by blast
  from shape ex(2) same
  have eq: "fetch_historical (int_lib []) (fixed_http bybit_page) 5000 ?s =
      fetch_historical (int_lib []) ?only 5000 ?s"
    by blast
  from shape have "case requested_klines (fixed_http bybit_page) 5000 ?s of
      Inl e \<Rightarrow> fst (fetch_historical (int_lib []) (fixed_http bybit_page) 5000 ?s) = []
    | Inr klines \<Rightarrow>
        (case collect (historical_candle (int_lib [])) klines of
           Inl e \<Rightarrow> fst (fetch_historical (int_lib []) (fixed_http bybit_page) 5000 ?s) = []
         | Inr cs \<Rightarrow>
             length (fst (fetch_historical (int_lib []) (fixed_http bybit_page) 5000 ?s)) =
               length klines \<and>
             mset (fst (fetch_historical (int_lib []) (fixed_http bybit_page) 5000 ?s)) =
               mset cs)"
    by blast
  then have len: "length (fst (fetch_historical (int_lib []) (fixed_http bybit_page) 5000 ?s)) = 5"
    and ms: "mset (fst (fetch_historical (int_lib []) (fixed_http bybit_page) 5000 ?s)) =
      mset [flat_candle 1 None, flat_candle 2 None, flat_candle 3 None, flat_candle 5 None,
            flat_candle 4 None]"
    by (simp_all only: rows read sum.case list.size length_Cons)
  from ex(1) srt eq rows len ms show ?thesis
    by (intro conjI)
qed


section \<open>Live feed: what the handlers do\<close>

lemma candles_process_candle_subset:
  "set (candles (snd (process_candle c s))) \<subseteq> insert c (set (candles s))"
  using set_last_n [of 10000 "candles s @ [c]"] by (auto simp: candles_process_candle)

lemma observed_process_candle_subset:
  "set (observed (snd (process_candle c s))) \<subseteq> insert c (set (observed s))"
  by (auto simp: process_candle_cases autosave_def save_csv_def append_capped_fields
      split: option.splits)

lemma okx_live_candle_flag: "okx_live_candle lib k = Inr c \<Longrightarrow> confirmed c = Some (JBool True)"
  by (auto simp: okx_live_candle_def ebind_def split: sum.splits)

lemma okx_loop_flags:
  "set (candles (okx_loop lib ks s)) \<subseteq> set (candles s) \<union> {c. confirmed c = Some (JBool True)} \<and>
   set (observed (okx_loop lib ks s)) \<subseteq> set (observed s) \<union> {c. confirmed c = Some (JBool True)}"
proof (induction ks arbitrary: s)
  case Nil
  then show ?case by simp
next
  case (Cons k ks)
  show ?case
  proof (cases "okx_live_candle lib k")
    case (Inl e)
    then show ?thesis by simp
  next
    case (Inr c)
    then have flag: "confirmed c = Some (JBool True)" by (rule okx_live_candle_flag)
    obtain out s' where p: "process_candle c s = (out, s')"
      by (cases "process_candle c s")
    from p candles_process_candle_subset [of c s] observed_process_candle_subset [of c s] flag
    have step: "set (candles s') \<subseteq> set (candles s) \<union> {c. confirmed c = Some (JBool True)}"
      "set (observed s') \<subseteq> set (observed s) \<union> {c. confirmed c = Some (JBool True)}"
      by auto
    show ?thesis
    proof (cases out)
      case Returned
      with Inr p have "okx_loop lib (k # ks) s = okx_loop lib ks s'" by simp
      with Cons.IH [of s'] step show ?thesis by auto
    next
      case (Raised e)
      with Inr p have "okx_loop lib (k # ks) s = s'" by simp
      with step show ?thesis by simp
    qed
  qed
qed

lemma okx_on_message_flags:
  "set (candles (okx_on_message lib m s)) \<subseteq> set (candles s) \<union> {c. confirmed c = Some (JBool True)} \<and>
   set (observed (okx_on_message lib m s)) \<subseteq> set (observed s) \<union> {c. confirmed c = Some (JBool True)}"
proof (cases "okx_accept lib m")
  case (Inl e)
  then show ?thesis by (simp add: okx_on_message_def)
next
  case (Inr r)
  show ?thesis
  proof (cases r)
    case None
    with Inr show ?thesis by (simp add: okx_on_message_def)
  next
    case (Some ks)
    with Inr have "okx_on_message lib m s = okx_loop lib ks s"
      by (simp add: okx_on_message_def)
    with okx_loop_flags [of lib ks s] show ?thesis by simp
  qed
qed

lemmas live_eval = default_session_def init_def int_lib_def tick_lib_def bybit_tick_def
  okx_push_def bybit_tick_text_def okx_push_text_def
  flat_candle_def ebind_def field_time_def field_float_def start_live_def start_bybit_ws_def
  start_binance_ws_def start_okx_ws_def open_socket_def sleep_def bybit_on_open_def
  okx_on_open_def bybit_subscribe_def okx_subscribe_def okx_inst_id_def
  bybit_on_message_def bybit_accept_def bybit_live_candle_def
  okx_on_message_def okx_accept_def okx_live_candle_def
  binance_ws_url_def str_lower_def lower_char_def
  bybit_interval_def binance_interval_def okx_interval_def dict_get_def
  bybit_cfg_def binance_cfg_def okx_cfg_def quiet_observer_def
  process_candle_cases append_capped_def last_n_def autosave_def save_csv_def

text \<open>
  Claim C10. Every candle that OKX's \<open>on_message\<close> builds has its confirmed flag set to
  \<open>True\<close>, whatever the kline says; so has every candle the handler adds to the timeline
  or hands to the observer.
\<close>

theorem okx_live_confirmed:
  "(okx_live_candle lib kline = Inr c \<longrightarrow> confirmed c = Some (JBool True)) \<and>
   (\<forall>c \<in> set (candles (okx_on_message lib m s)) - set (candles s).
      confirmed c = Some (JBool True)) \<and>
   (\<forall>c \<in> set (observed (okx_on_message lib m s)) - set (observed s).
      confirmed c = Some (JBool True))"
  using okx_on_message_flags [of lib m s] okx_live_candle_flag [of lib kline c]
  by blast

theorem okx_live_confirmed_witness:
  "flat_candle 7 (Some (JBool True)) \<in>
     set (candles (okx_on_message tick_lib okx_push_text (default_session ''okx''))) -
     set (candles (default_session ''okx'')) \<and>
   confirmed (flat_candle 7 (Some (JBool True))) = Some (JBool True)"
proof -
  have m: "flat_candle 7 (Some (JBool True)) \<in>
     set (candles (okx_on_message tick_lib okx_push_text (default_session ''okx''))) -
     set (candles (default_session ''okx''))"
    by (simp add: live_eval)
  from okx_live_confirmed [where lib = tick_lib and m = okx_push_text
      and s = "default_session ''okx''"]
  have "\<forall>c \<in> set (candles (okx_on_message tick_lib okx_push_text (default_session ''okx''))) -
      set (candles (default_session ''okx'')). confirmed c = Some (JBool True)"
    by blast
  from bspec [OF this m] m show ?thesis by simp
qed

subsection \<open>Closing and reconnecting\<close>

text \<open>On Bybit a close while the session is running is followed by a sleep of five
  seconds, a new connection to the same URL and, once that connection opens, the
  subscription that the first connection sent.\<close>

lemma bybit_first_subscription:
  "wire (start_bybit_ws lib [Opened] s) =
     wire s @ [Connect (ws_url bybit_cfg),
               Send (bybit_subscribe (bybit_interval (timeframe s)) s)]"
  by (simp add: start_bybit_ws_def open_socket_def bybit_on_open_def bybit_subscribe_def)

lemma bybit_reconnects:
  "running s \<Longrightarrow>
   wire (bybit_run_forever lib i [Closed, Opened] s) =
     wire s @ [Sleep 5, Connect (ws_url bybit_cfg),
               Send (bybit_subscribe (bybit_interval (timeframe s)) s)]"
  by (simp add: open_socket_def sleep_def bybit_on_open_def bybit_subscribe_def)

text \<open>On every exchange a close after \<open>stop\<close> ends the loop with nothing more done.\<close>

lemma closed_when_stopped:
  "\<not> running s \<Longrightarrow> bybit_run_forever lib i (Closed # es) s = s"
  "binance_run_forever lib (Closed # es) s = s"
  "okx_run_forever lib i (Closed # es) s = s"
  by simp_all

lemma stop_then_closed:
  "bybit_run_forever lib i (StopCalled # Closed # es) s = stop s"
  "binance_run_forever lib (StopCalled # Closed # es) s = stop s"
  "okx_run_forever lib i (StopCalled # Closed # es) s = stop s"
  by (simp_all add: stop_fields)

text \<open>
  Claim C1 on Binance and on OKX: the session is started with the defaults, the connection
  opens and then closes while the running flag is still true. Nothing follows the close:
  no sleep and no second connection, and a later opening in the script reaches no handler.
  \<open>_start_binance_ws\<close> and \<open>_start_okx_ws\<close> register no \<open>on_close\<close>; only
  \<open>_start_bybit_ws\<close> does.
\<close>

theorem close_while_running_not_followed:
  "running (start_live tick_lib None [Opened, Closed, Opened] (default_session ''binance'')) \<and>
   wire (start_live tick_lib None [Opened, Closed, Opened] (default_session ''binance'')) =
     [Connect ''wss://fstream.binance.com/ws/btcusdt@kline_1m''] \<and>
   running (start_live tick_lib None [Opened, Closed, Opened] (default_session ''okx'')) \<and>
   wire (start_live tick_lib None [Opened, Closed, Opened] (default_session ''okx'')) =
     [Connect ''wss://ws.okx.com:8443/ws/v5/public'',
      Send (JObj [(''op'', JStr ''subscribe''),
                  (''args'', JArr [JObj [(''channel'', JStr ''candle1m''),
                                         (''instId'', JStr ''BTC-USDT-SWAP'')]])])]"
  by (simp add: live_eval)

text \<open>The same script on Bybit, for comparison.\<close>

lemma bybit_close_while_running:
  "wire (start_live tick_lib None [Opened, Closed, Opened] (default_session ''bybit'')) =
     [Connect ''wss://stream.bybit.com/v5/public/linear'',
      Send (JObj [(''op'', JStr ''subscribe''), (''args'', JArr [JStr ''kline.1.BTCUSDT''])]),
      Sleep 5,
      Connect ''wss://stream.bybit.com/v5/public/linear'',
      Send (JObj [(''op'', JStr ''subscribe''), (''args'', JArr [JStr ''kline.1.BTCUSDT''])])]"
  by (simp add: live_eval)

subsection \<open>Messages for other topics\<close>

text \<open>Bybit's handler leaves the session as it is on a dict message whose topic string
  does not contain \<open>kline.\<close> followed by the interval, and on one without a \<open>data\<close> key.\<close>

lemma bybit_ignores_unmatched:
  assumes "json_loads lib m = Inr (JObj kvs)"
    and "map_of kvs ''topic'' = Some (JStr t)"
    and "\<not> sublist (''kline.'' @ i) t"
  shows "bybit_on_message lib i m s = s"
  using assms by (simp add: bybit_on_message_def bybit_accept_def ebind_def)

lemma bybit_ignores_without_data:
  assumes "json_loads lib m = Inr (JObj kvs)" and "''data'' \<notin> fst ` set kvs"
  shows "bybit_on_message lib i m s = s"
  using assms by (simp add: bybit_on_message_def bybit_accept_def ebind_def)

lemma topic_15_contains_topic_1: "sublist ''kline.1'' ''kline.15.BTCUSDT''"
  by code_simp

text \<open>
  Claim C4 on Bybit: the session is subscribed to the 1-minute timeframe, whose interval
  code is \<open>1\<close> and whose topic is \<open>kline.1.BTCUSDT\<close>, and a message arrives for the topic
  \<open>kline.15.BTCUSDT\<close>. The handler tests that \<open>kline.1\<close> occurs in the topic, which it does
  in \<open>kline.15.BTCUSDT\<close>: the candle is appended to the timeline and handed to the
  observer.
\<close>

theorem other_topic_accepted:
  "bybit_interval ''1m'' = ''1'' \<and>
   wire (start_live tick_lib (Some quiet_observer) [Opened, Message bybit_tick_text]
     (default_session ''bybit'')) =
     [Connect ''wss://stream.bybit.com/v5/public/linear'',
      Send (JObj [(''op'', JStr ''subscribe''), (''args'', JArr [JStr ''kline.1.BTCUSDT''])])] \<and>
   candles (start_live tick_lib (Some quiet_observer) [Opened, Message bybit_tick_text]
     (default_session ''bybit'')) = [flat_candle 5 (Some (JBool False))] \<and>
   observed (start_live tick_lib (Some quiet_observer) [Opened, Message bybit_tick_text]
     (default_session ''bybit'')) = [flat_candle 5 (Some (JBool False))]"
  using topic_15_contains_topic_1 by (simp add: live_eval)

end
